theory Spec2Isabelle
  imports Complex_Main "HOL-Library.Signed_Division"
begin

section \<open>Data model\<close>

text \<open>
  The curves of the repository are \<^verbatim>\<open>GMlib::PCurve<float,3>\<close> subclasses. A point is a
  \<^verbatim>\<open>GMlib::Vector<float,3>\<close>. Single-precision numbers are modelled by the reals: every
  arithmetic operation is taken to be exact, and a division whose divisor is zero (which
  gives an infinity or a NaN in the program) is a fault of the model. Vectors of GMlib
  (\<^verbatim>\<open>DVector\<close>) are lists; indices and dimensions are C++ \<^verbatim>\<open>int\<close>s, modelled by
  unbounded integers.
\<close>

datatype vec3 = Vec3 real real real

fun vadd :: "vec3 \<Rightarrow> vec3 \<Rightarrow> vec3" where
  "vadd (Vec3 a b c) (Vec3 x y z) = Vec3 (a + x) (b + y) (c + z)"

fun vsub :: "vec3 \<Rightarrow> vec3 \<Rightarrow> vec3" where
  "vsub (Vec3 a b c) (Vec3 x y z) = Vec3 (a - x) (b - y) (c - z)"

fun smul :: "real \<Rightarrow> vec3 \<Rightarrow> vec3" where
  "smul s (Vec3 x y z) = Vec3 (s * x) (s * y) (s * z)"

text \<open>
  An access outside a vector's dimension and an integer remainder by zero are undefined
  behaviour in the program; the model returns them as faults.
\<close>

datatype fault = OutOfRange | DivisionByZero

definition bnd :: "fault + 'a \<Rightarrow> ('a \<Rightarrow> fault + 'b) \<Rightarrow> fault + 'b" where
  "bnd m f = (case m of Inl e \<Rightarrow> Inl e | Inr x \<Rightarrow> f x)"

definition rd :: "'a list \<Rightarrow> int \<Rightarrow> fault + 'a" where
  "rd xs i = (if 0 \<le> i \<and> i < int (length xs) then Inr (xs ! nat i) else Inl OutOfRange)"

definition wr :: "'a list \<Rightarrow> int \<Rightarrow> 'a \<Rightarrow> fault + 'a list" where
  "wr xs i v = (if 0 \<le> i \<and> i < int (length xs) then Inr (xs[nat i := v]) else Inl OutOfRange)"

text \<open>
  The result vector \<^verbatim>\<open>_p\<close> of an evaluation: \<^verbatim>\<open>_p.setDim(d + 1)\<close> gives it \<open>d + 1\<close>
  slots and initialises none of them. A slot that the evaluation has not written is
  \<open>Unset\<close>.
\<close>

datatype 'a slot = Unset | Val 'a

definition setDim :: "int \<Rightarrow> 'a slot list" where
  "setDim n = replicate (nat n) Unset"

section \<open>ClosedSubdivisionCurve\<close>

text \<open>
  \<^verbatim>\<open>laneRiesenfeldSubdivision\<close>, step 1 of an iteration: a vector of \<open>2 * numPoints\<close> zero
  points is filled by the loop over \<open>i\<close>. All indices of the loop are non-negative, so
  \<^verbatim>\<open>%\<close> is \<open>mod\<close> on naturals, and all are inside the vectors.
\<close>

definition insertMidpoints :: "vec3 list \<Rightarrow> vec3 list" where
  "insertMidpoints points =
     (let numPoints = length points in
      fold (\<lambda>i newPoints.
              (newPoints[2 * i := points ! i])
                [2 * i + 1 := smul (1/2) (vadd (points ! i) (points ! ((i + 1) mod numPoints)))])
           [0..<numPoints]
           (replicate (2 * numPoints) (Vec3 0 0 0)))"

text \<open>
  Step 2, one averaging pass: \<open>prev = (i - 1 + dim) % dim\<close>, whose left operand is not
  negative when the loop runs.
\<close>

definition averagingPass :: "vec3 list \<Rightarrow> vec3 list" where
  "averagingPass newPoints =
     (let dim = length newPoints in
      fold (\<lambda>i smoothedPoints.
              smoothedPoints[i := smul (1/2)
                 (vadd (newPoints ! i) (newPoints ! nat ((int i - 1 + int dim) mod int dim)))])
           [0..<dim]
           (replicate dim (Vec3 0 0 0)))"

text \<open>
  One iteration of the outer loop: the midpoints, then the passes \<open>avg = 1, ..., degree - 1\<close>.
\<close>

definition refineOnce :: "int \<Rightarrow> vec3 list \<Rightarrow> vec3 list" where
  "refineOnce degree points = (averagingPass ^^ nat (degree - 1)) (insertMidpoints points)"

text \<open>
  The whole subdivision: \<open>iter = 0, ..., degree - 1\<close>, then the last point of the table is
  overwritten with the first one when the table has more than one point.
\<close>

definition laneRiesenfeldSubdivision :: "vec3 list \<Rightarrow> int \<Rightarrow> vec3 list" where
  "laneRiesenfeldSubdivision controlPoints degree =
     (let points = (refineOnce degree ^^ nat degree) controlPoints in
      if length points > 1 then points[length points - 1 := points ! 0] else points)"

text \<open>
  \<^verbatim>\<open>ClosedSubdivisionCurve::eval\<close>. \<^verbatim>\<open>%\<close> truncates towards zero (\<open>smod\<close>); its divisor is
  the dimension of the table in all three uses.
\<close>

definition ClosedSubdivisionCurve_eval :: "vec3 list \<Rightarrow> real \<Rightarrow> int \<Rightarrow> fault + vec3 slot list" where
  "ClosedSubdivisionCurve_eval subdividedPoints t d =
     (let P = setDim (d + 1);
          dim = int (length subdividedPoints);
          scaled_t = t * real_of_int (dim - 1)
      in if dim = 0 then Inl DivisionByZero
         else
           let index = \<lfloor>scaled_t\<rfloor> smod dim;
               alpha = scaled_t - real_of_int index
           in bnd (rd subdividedPoints index) (\<lambda>p1.
              bnd (rd subdividedPoints ((index + 1) smod dim)) (\<lambda>p2.
              bnd (wr P 0 (Val (vadd (smul (1 - alpha) p1) (smul alpha p2)))) (\<lambda>P.
              if d > 0 then
                (let next = (index + 1) smod dim;
                     prev = (index - 1 + dim) smod dim
                 in bnd (rd subdividedPoints next) (\<lambda>pn.
                    bnd (rd subdividedPoints prev) (\<lambda>pp.
                    wr P 1 (Val (smul (1/2) (vsub pn pp))))))
              else Inr P))))"

section \<open>TorusKnot\<close>

text \<open>
  \<^verbatim>\<open>TorusKnot::eval\<close>, with the constants of the source: \<open>R = 2\<close>, \<open>p = 2\<close>, \<open>q = 3\<close>.
\<close>

definition TorusKnot_eval :: "real \<Rightarrow> int \<Rightarrow> fault + vec3 slot list" where
  "TorusKnot_eval t d =
     (let P = setDim (d + 1);
          R = (2::real); p = (2::real); q = (3::real);
          x = (R + cos (q * t)) * cos (p * t);
          y = (R + cos (q * t)) * sin (p * t);
          z = sin (q * t)
      in bnd (wr P 0 (Val (Vec3 x y z))) (\<lambda>P.
         bnd (if d > 0 then
                (let dx = - p * (R + cos (q * t)) * sin (p * t) - q * sin (q * t) * cos (p * t);
                     dy = p * (R + cos (q * t)) * cos (p * t) - q * sin (q * t) * sin (p * t);
                     dz = q * cos (q * t)
                 in wr P 1 (Val (Vec3 dx dy dz)))
              else Inr P) (\<lambda>P.
         if d > 1 then
           (let partA = - p * (p * (R + cos (q * t)) * cos (p * t) - q * sin (q * t) * sin (p * t));
                partB = - q * (q * cos (q * t) * cos (p * t) - p * sin (q * t) * sin (p * t));
                xpp = partA + partB;
                partC = p * (- p * (R + cos (q * t)) * sin (p * t) - q * sin (q * t) * cos (p * t));
                partD = - q * (q * cos (q * t) * sin (p * t) + p * sin (q * t) * cos (p * t));
                ypp = partC + partD;
                zpp = - q * q * sin (q * t)
            in wr P 2 (Val (Vec3 xpp ypp zpp)))
         else Inr P)))"

section \<open>The quadratic B-spline curve\<close>

record MyB_spline =
  controlPoints :: "vec3 list"
  knotVector :: "real list"

text \<open>
  \<^verbatim>\<open>generateKnotVector\<close> for \<open>n\<close> control points. \<^verbatim>\<open>_knotVector.setDim(m)\<close> leaves the
  content of the \<open>m\<close> entries unspecified: \<open>u\<close> stands for it. The three loops follow.
\<close>

definition generateKnotVector :: "real \<Rightarrow> nat \<Rightarrow> real list" where
  "generateKnotVector u n =
     (let k = (2::nat);
          m = n + k + 1;
          kv0 = replicate m u;
          kv1 = fold (\<lambda>i kv. kv[i := 0]) [0..<k + 1] kv0;
          kv2 = fold (\<lambda>i kv. kv[i := real_of_int (int i - int k)]) [k + 1..<m - (k + 1)] kv1;
          maxValue = real_of_int (int m - 2 * (int k + 1) + 1)
      in fold (\<lambda>i kv. kv[i := maxValue]) [m - (k + 1)..<m] kv2)"

text \<open>The first constructor: the control points are given.\<close>

definition MyB_spline_direct :: "real \<Rightarrow> vec3 list \<Rightarrow> MyB_spline" where
  "MyB_spline_direct u c = \<lparr>controlPoints = c, knotVector = generateKnotVector u (length c)\<rparr>"

text \<open>
  \<^verbatim>\<open>evaluateBasis(i, degree, t)\<close> on a knot vector \<open>kv\<close> and \<open>n\<close> control points. The
  recursion is on \<open>degree\<close>, which the only caller sets to 2. \<open>&&\<close> and \<open>||\<close> read the knots
  from left to right and only as far as needed.
\<close>

definition lastKnotCase :: "real list \<Rightarrow> nat \<Rightarrow> int \<Rightarrow> real \<Rightarrow> fault + real" where
  "lastKnotCase kv n i t =
     bnd (rd kv (int (length kv) - 1)) (\<lambda>kl.
       Inr (if t = kl \<and> i = int n - 1 then 1 else 0))"

fun evaluateBasis :: "real list \<Rightarrow> nat \<Rightarrow> int \<Rightarrow> nat \<Rightarrow> real \<Rightarrow> fault + real" where
  "evaluateBasis kv n i 0 t =
     (case rd kv i of Inl e \<Rightarrow> Inl e | Inr ki \<Rightarrow>
        if ki \<le> t then
          (case rd kv (i + 1) of Inl e \<Rightarrow> Inl e | Inr ki1 \<Rightarrow>
             if t < ki1 then Inr 1 else lastKnotCase kv n i t)
        else lastKnotCase kv n i t)"
| "evaluateBasis kv n i (Suc dg) t =
     (case rd kv (i + int (Suc dg)) of Inl e \<Rightarrow> Inl e | Inr kid \<Rightarrow>
      case rd kv i of Inl e \<Rightarrow> Inl e | Inr ki \<Rightarrow>
      let denom1 = kid - ki in
      case (if denom1 \<noteq> 0
            then (case evaluateBasis kv n i dg t of Inl e \<Rightarrow> Inl e
                  | Inr b \<Rightarrow> Inr ((t - ki) / denom1 * b))
            else Inr 0) of Inl e \<Rightarrow> Inl e | Inr term1 \<Rightarrow>
      case rd kv (i + int (Suc dg) + 1) of Inl e \<Rightarrow> Inl e | Inr kid1 \<Rightarrow>
      case rd kv (i + 1) of Inl e \<Rightarrow> Inl e | Inr ki1 \<Rightarrow>
      let denom2 = kid1 - ki1 in
      case (if denom2 \<noteq> 0
            then (case evaluateBasis kv n (i + 1) dg t of Inl e \<Rightarrow> Inl e
                  | Inr b \<Rightarrow> Inr ((kid1 - t) / denom2 * b))
            else Inr 0) of Inl e \<Rightarrow> Inl e | Inr term2 \<Rightarrow>
      Inr (term1 + term2))"

text \<open>A counted loop whose body may fault: the first fault ends it.\<close>

primrec forE :: "('i \<Rightarrow> 's \<Rightarrow> fault + 's) \<Rightarrow> 'i list \<Rightarrow> 's \<Rightarrow> fault + 's" where
  "forE body [] s = Inr s"
| "forE body (i # js) s = bnd (body i s) (forE body js)"

text \<open>
  \<^verbatim>\<open>MyB_spline::eval\<close>: slot 0 is set to zero, then each control point adds its share to
  it (\<^verbatim>\<open>_p[0] += basisVal * _controlPoints[i]\<close>; adding to a slot that was never written
  would leave it unspecified).
\<close>

definition addTo :: "vec3 slot \<Rightarrow> vec3 \<Rightarrow> vec3 slot" where
  "addTo s v = (case s of Val acc \<Rightarrow> Val (vadd acc v) | Unset \<Rightarrow> Unset)"

definition MyB_spline_eval :: "MyB_spline \<Rightarrow> real \<Rightarrow> int \<Rightarrow> fault + vec3 slot list" where
  "MyB_spline_eval c t d =
     (let P = setDim (d + 1) in
      bnd (wr P 0 (Val (Vec3 0 0 0))) (\<lambda>P.
        let n = length (controlPoints c); degree = 2 in
        forE (\<lambda>i P.
                bnd (evaluateBasis (knotVector c) n (int i) degree t) (\<lambda>basisVal.
                bnd (rd (controlPoints c) (int i)) (\<lambda>ci.
                bnd (rd P 0) (\<lambda>s. wr P 0 (addTo s (smul basisVal ci))))))
             [0..<n] P))"



text \<open>
  \<^verbatim>\<open>leastSquaresFit(p, n)\<close>. A division of the program whose divisor is zero leaves the
  reals of the model, so it is a fault.
\<close>

definition fdiv :: "real \<Rightarrow> real \<Rightarrow> fault + real" where
  "fdiv a b = (if b = 0 then Inl DivisionByZero else Inr (a / b))"

text \<open>The linear scan for the knot span, \<open>j = k, ..., n - 1\<close>; \<open>- 1\<close> when none is found.\<close>

function findSpan :: "real list \<Rightarrow> real \<Rightarrow> int \<Rightarrow> int \<Rightarrow> fault + int" where
  "findSpan kv t n j =
     (if j < n then
        (case rd kv j of Inl e \<Rightarrow> Inl e | Inr kj \<Rightarrow>
           if t \<ge> kj then
             (case rd kv (j + 1) of Inl e \<Rightarrow> Inl e | Inr kj1 \<Rightarrow>
                if t < kj1 then Inr j else findSpan kv t n (j + 1))
           else findSpan kv t n (j + 1))
      else Inr (- 1))"
  by pat_completeness auto
termination
  by (relation "measure (\<lambda>(kv, t, n, j). nat (n - j))") auto

text \<open>
  The \<open>k + 1\<close> weights \<open>N_i\<close> of one sample: the loops over \<open>d\<close> and \<open>r\<close>. The variable
  \<^verbatim>\<open>span\<close> of the source is \<open>spanIx\<close> here.
\<close>

definition basisWeights :: "real list \<Rightarrow> nat \<Rightarrow> real \<Rightarrow> int \<Rightarrow> fault + real list" where
  "basisWeights kv k t spanIx =
     forE (\<lambda>d N_i.
             bnd (rd kv (spanIx + 1 - int d)) (\<lambda>a. let left = t - a in
             bnd (rd kv (spanIx + int d)) (\<lambda>b. let right = b - t in
             bnd (forE (\<lambda>r (N_i, saved).
                          bnd (rd N_i (int r)) (\<lambda>nr.
                          bnd (rd kv (spanIx + int r + 1)) (\<lambda>ku.
                          bnd (rd kv (spanIx + 1 - int d + int r)) (\<lambda>kl.
                          bnd (fdiv nr (ku - kl)) (\<lambda>temp.
                          bnd (wr N_i (int r) (saved + right * temp)) (\<lambda>N_i.
                          Inr (N_i, left * temp)))))))
                       [0..<d] (N_i, 0)) (\<lambda>(N_i, saved).
             wr N_i (int d) saved))))
          [1..<k + 1] ((replicate (k + 1) 0)[0 := 1])"

text \<open>One pass of the loop over the samples: row \<open>i\<close> of the \<open>m \<times> n\<close> matrix \<open>N\<close>.\<close>

definition fitRow :: "real list \<Rightarrow> int \<Rightarrow> nat \<Rightarrow> nat \<Rightarrow> real list list \<Rightarrow> fault + real list list" where
  "fitRow kv n m i N =
     (let k = (2::nat) in
      bnd (fdiv (real i) (real_of_int (int m - 1))) (\<lambda>t.
      bnd (findSpan kv t n (int k)) (\<lambda>s. let spanIx = (if s = - 1 then n - 1 else s) in
      bnd (basisWeights kv k t spanIx) (\<lambda>N_i.
      forE (\<lambda>j N.
              bnd (rd N_i (int j)) (\<lambda>v.
              bnd (rd N (int i)) (\<lambda>row.
              bnd (wr row (spanIx - int k + int j) v) (\<lambda>row.
              wr N (int i) row))))
           [0..<k + 1] N))))"

text \<open>
  The matrix operations of GMlib (\<^verbatim>\<open>DMatrix\<close>) on lists of rows: the transposed matrix,
  the product of two matrices and the product of a matrix with a vector of points.
  \<^verbatim>\<open>DMatrix::invert\<close> belongs to GMlib and is a parameter of the model.
\<close>

definition mtranspose :: "nat \<Rightarrow> real list list \<Rightarrow> real list list" where
  "mtranspose cols A = map (\<lambda>j. map (\<lambda>row. row ! j) A) [0..<cols]"

definition mmul :: "nat \<Rightarrow> real list list \<Rightarrow> real list list \<Rightarrow> real list list" where
  "mmul cols A B =
     map (\<lambda>row. map (\<lambda>j. sum_list (map (\<lambda>(a, brow). a * brow ! j) (zip row B))) [0..<cols]) A"

definition mapply :: "real list list \<Rightarrow> vec3 list \<Rightarrow> vec3 list" where
  "mapply A p = map (\<lambda>row. foldl vadd (Vec3 0 0 0) (map (\<lambda>(a, v). smul a v) (zip row p))) A"

definition leastSquaresFit ::
    "(real list list \<Rightarrow> real list list) \<Rightarrow> real list \<Rightarrow> vec3 list \<Rightarrow> int \<Rightarrow> fault + vec3 list" where
  "leastSquaresFit invert kv p n =
     (let m = length p;
          N0 = replicate m (replicate (nat n) 0)
      in bnd (forE (fitRow kv n m) [0..<m] N0) (\<lambda>N.
           let Nt = mtranspose (nat n) N;
               NtN = mmul (nat n) Nt N;
               NtNi = invert NtN;
               NtNiNt = mmul m NtNi Nt
           in Inr (mapply NtNiNt p)))"

text \<open>
  The second constructor. It has no member initialiser, so \<^verbatim>\<open>_knotVector\<close> is an empty
  vector when \<^verbatim>\<open>leastSquaresFit\<close> runs, and \<^verbatim>\<open>generateKnotVector\<close> runs after it.
\<close>

definition MyB_spline_fitted ::
    "(real list list \<Rightarrow> real list list) \<Rightarrow> real \<Rightarrow> vec3 list \<Rightarrow> int \<Rightarrow> fault + MyB_spline" where
  "MyB_spline_fitted invert u p n =
     bnd (leastSquaresFit invert [] p n) (\<lambda>c.
       Inr \<lparr>controlPoints = c, knotVector = generateKnotVector u (length c)\<rparr>)"

text \<open>
  For the proofs: the number that \<^verbatim>\<open>evaluateBasis\<close> computes when every knot it reads is
  inside the knot vector (\<open>evaluateBasis_value\<close> below relates the two).
\<close>

fun basisValue :: "real list \<Rightarrow> nat \<Rightarrow> nat \<Rightarrow> nat \<Rightarrow> real \<Rightarrow> real" where
  "basisValue kv n i 0 t =
     (if (kv ! i \<le> t \<and> t < kv ! (i + 1)) \<or> (t = kv ! (length kv - 1) \<and> int i = int n - 1)
      then 1 else 0)"
| "basisValue kv n i (Suc dg) t =
     (let denom1 = kv ! (i + Suc dg) - kv ! i;
          term1 = (if denom1 \<noteq> 0 then (t - kv ! i) / denom1 * basisValue kv n i dg t else 0);
          denom2 = kv ! (i + Suc dg + 1) - kv ! (i + 1);
          term2 = (if denom2 \<noteq> 0
                   then (kv ! (i + Suc dg + 1) - t) / denom2 * basisValue kv n (i + 1) dg t else 0)
      in term1 + term2)"

section \<open>Basic facts\<close>

lemma bnd_Inr [simp]: "bnd (Inr x) f = f x"
  by (simp add: bnd_def)

lemma bnd_Inl [simp]: "bnd (Inl e) f = Inl e"
  by (simp add: bnd_def)

lemma length_fold_update:
  assumes "\<And>i xs. length (f i xs) = length xs"
  shows "length (fold f js xs) = length xs"
  using assms by (induction js arbitrary: xs) simp_all

lemma length_insertMidpoints: "length (insertMidpoints ps) = 2 * length ps"
  unfolding insertMidpoints_def Let_def
  by (subst length_fold_update) simp_all

lemma length_averagingPass: "length (averagingPass ps) = length ps"
  unfolding averagingPass_def Let_def
  by (subst length_fold_update) simp_all

lemma length_averagingPass_pow: "length ((averagingPass ^^ k) ps) = length ps"
  by (induction k) (simp_all add: length_averagingPass)

lemma length_refineOnce: "length (refineOnce g ps) = 2 * length ps"
  by (simp add: refineOnce_def length_averagingPass_pow length_insertMidpoints)

lemma length_refineOnce_pow: "length ((refineOnce g ^^ k) ps) = length ps * 2 ^ k"
  by (induction k) (simp_all add: length_refineOnce)

lemma length_laneRiesenfeldSubdivision:
  "length (laneRiesenfeldSubdivision cps g) = length cps * 2 ^ nat g"
  by (simp add: laneRiesenfeldSubdivision_def Let_def length_refineOnce_pow)

lemma closure_laneRiesenfeldSubdivision:
  assumes "2 \<le> length cps"
  shows "laneRiesenfeldSubdivision cps g ! (length cps * 2 ^ nat g - 1)
         = laneRiesenfeldSubdivision cps g ! 0"
proof -
  let ?pts = "(refineOnce g ^^ nat g) cps"
  have len: "length ?pts = length cps * 2 ^ nat g"
    by (rule length_refineOnce_pow)
  have "(1::nat) \<le> 2 ^ nat g" by simp
  then have "length cps * 1 \<le> length cps * 2 ^ nat g"
    by (rule mult_le_mono2)
  with assms have "1 < length cps * 2 ^ nat g"
    by linarith
  then have big: "1 < length ?pts"
    by (simp only: len)
  then show ?thesis
    using len by (simp add: laneRiesenfeldSubdivision_def Let_def nth_list_update)
qed

lemma smod_nonneg: "0 \<le> a \<Longrightarrow> 0 < b \<Longrightarrow> (a::int) smod b = a mod b"
  by (cases "a = 0") (simp_all add: signed_modulo_int_def)


lemma floor_scaled_bounds:
  assumes "0 \<le> t" "t \<le> 1" "1 \<le> (N::int)"
  shows "0 \<le> \<lfloor>t * real_of_int (N - 1)\<rfloor>" "\<lfloor>t * real_of_int (N - 1)\<rfloor> \<le> N - 1"
proof -
  have nn: "0 \<le> real_of_int (N - 1)" using assms(3) by simp
  have "0 \<le> t * real_of_int (N - 1)" using assms(1) nn by simp
  then show "0 \<le> \<lfloor>t * real_of_int (N - 1)\<rfloor>" by simp
  have "t * real_of_int (N - 1) \<le> 1 * real_of_int (N - 1)"
    using assms(2) nn by (rule mult_right_mono)
  then have "t * real_of_int (N - 1) \<le> real_of_int (N - 1)"
    by (simp only: mult_1)
  then have "\<lfloor>t * real_of_int (N - 1)\<rfloor> \<le> \<lfloor>real_of_int (N - 1)\<rfloor>"
    by (rule floor_mono)
  then show "\<lfloor>t * real_of_int (N - 1)\<rfloor> \<le> N - 1"
    by (simp only: floor_of_int)
qed

lemma wr_setDim: "0 < n \<Longrightarrow> wr (setDim n) 0 v = Inr ((replicate (nat n) Unset)[0 := v])"
  by (simp add: wr_def setDim_def)

lemma eval_in_domain:
  assumes "0 \<le> t" "t \<le> 1" "2 \<le> length tbl" "0 \<le> d"
  defines "N \<equiv> int (length tbl)"
  defines "ix \<equiv> \<lfloor>t * real_of_int (N - 1)\<rfloor>"
  defines "alpha \<equiv> frac (t * real_of_int (N - 1))"
  defines "pos \<equiv> vadd (smul (1 - alpha) (tbl ! nat ix)) (smul alpha (tbl ! nat ((ix + 1) mod N)))"
  defines "der \<equiv> smul (1/2) (vsub (tbl ! nat ((ix + 1) mod N)) (tbl ! nat ((ix - 1) mod N)))"
  shows "ClosedSubdivisionCurve_eval tbl t d =
           Inr (if d > 0 then (replicate (nat (d + 1)) Unset)[0 := Val pos, 1 := Val der]
                else (replicate (nat (d + 1)) Unset)[0 := Val pos])"
    and "0 \<le> ix" and "ix \<le> N - 1"
    and "ix smod N = ix" and "(ix + 1) smod N = (ix + 1) mod N"
    and "(ix - 1 + N) smod N = (ix - 1) mod N"
proof -
  have N2: "2 \<le> N" using assms(3) by (simp add: N_def)
  show ix0: "0 \<le> ix" and ixN: "ix \<le> N - 1"
    unfolding ix_def using floor_scaled_bounds[OF assms(1,2), of N] N2 by simp_all
  show m0: "ix smod N = ix" using ix0 ixN N2 by (simp add: smod_nonneg)
  show m1: "(ix + 1) smod N = (ix + 1) mod N" using ix0 N2 by (simp add: smod_nonneg)
  show m2: "(ix - 1 + N) smod N = (ix - 1) mod N" using ix0 N2 by (simp add: smod_nonneg)
  have b1: "0 \<le> (ix + 1) mod N" "(ix + 1) mod N < N" using N2 by simp_all
  have b2: "0 \<le> (ix - 1) mod N" "(ix - 1) mod N < N" using N2 by simp_all
  have r0: "rd tbl ix = Inr (tbl ! nat ix)" using ix0 ixN by (simp add: rd_def N_def)
  have r1: "rd tbl ((ix + 1) mod N) = Inr (tbl ! nat ((ix + 1) mod N))"
    using b1 by (simp add: rd_def N_def)
  have r2: "rd tbl ((ix - 1) mod N) = Inr (tbl ! nat ((ix - 1) mod N))"
    using b2 by (simp add: rd_def N_def)
  have al: "t * real_of_int (N - 1) - real_of_int ix = alpha"
    by (simp add: frac_def ix_def alpha_def)
  have Nz: "N \<noteq> 0" using N2 by simp
  have w0: "wr (setDim (d + 1)) 0 v = Inr ((replicate (nat (d + 1)) Unset)[0 := v])" for v :: "vec3 slot"
    using assms(4) by (intro wr_setDim) simp
  have w1: "d > 0 \<Longrightarrow> wr ((replicate (nat (d + 1)) Unset)[0 := v]) 1 w
                   = Inr ((replicate (nat (d + 1)) Unset)[0 := v, 1 := w])" for v w :: "vec3 slot"
    by (simp add: wr_def)
  have step: "ClosedSubdivisionCurve_eval tbl t d =
     bnd (wr (setDim (d + 1)) 0 (Val pos))
         (\<lambda>P. if d > 0 then wr P 1 (Val der) else Inr P)"
    unfolding ClosedSubdivisionCurve_eval_def Let_def N_def[symmetric] ix_def[symmetric]
      pos_def der_def
    by (simp only: Nz if_False m0 m1 m2 r0 r1 r2 al bnd_Inr)
  show "ClosedSubdivisionCurve_eval tbl t d =
           Inr (if d > 0 then (replicate (nat (d + 1)) Unset)[0 := Val pos, 1 := Val der]
                else (replicate (nat (d + 1)) Unset)[0 := Val pos])"
    by (cases "d > 0") (simp_all only: step w0 bnd_Inr w1 if_True if_False)
qed

section \<open>Size and closure of the subdivided point table\<close>

text \<open>
  C6. A curve built from \<open>n \<ge> 2\<close> control points with degree \<open>g \<ge> 0\<close> stores a table of
  exactly \<open>n * 2 ^ g\<close> points whose last point equals its first point; in particular a
  four-point control polygon with degree 1 gives eight points, and point 7 equals point 0.
\<close>

theorem table_size_and_closure:
  assumes "2 \<le> length cps" and "0 \<le> g"
  shows "length (laneRiesenfeldSubdivision cps g) = length cps * 2 ^ nat g
       \<and> laneRiesenfeldSubdivision cps g ! (length (laneRiesenfeldSubdivision cps g) - 1)
           = laneRiesenfeldSubdivision cps g ! 0
       \<and> (length cps = 4 \<and> g = 1 \<longrightarrow>
            length (laneRiesenfeldSubdivision cps g) = 8
          \<and> laneRiesenfeldSubdivision cps g ! 7 = laneRiesenfeldSubdivision cps g ! 0)"
proof -
  have len: "length (laneRiesenfeldSubdivision cps g) = length cps * 2 ^ nat g"
    by (rule length_laneRiesenfeldSubdivision)
  have clo: "laneRiesenfeldSubdivision cps g ! (length cps * 2 ^ nat g - 1)
             = laneRiesenfeldSubdivision cps g ! 0"
    using assms(1) by (rule closure_laneRiesenfeldSubdivision)
  have ex: "length cps = 4 \<and> g = 1 \<longrightarrow>
            length (laneRiesenfeldSubdivision cps g) = 8
          \<and> laneRiesenfeldSubdivision cps g ! 7 = laneRiesenfeldSubdivision cps g ! 0"
  proof
    assume h: "length cps = 4 \<and> g = 1"
    then have "length cps * 2 ^ nat g = 8" by simp
    with len clo show "length (laneRiesenfeldSubdivision cps g) = 8
          \<and> laneRiesenfeldSubdivision cps g ! 7 = laneRiesenfeldSubdivision cps g ! 0"
      by simp
  qed
  from len clo ex show ?thesis by simp
qed

theorem table_size_and_closure_witness:
  "2 \<le> length [Vec3 0 0 0, Vec3 1 0 0, Vec3 1 1 0, Vec3 0 1 0] \<and> (0::int) \<le> 1
   \<and> length (laneRiesenfeldSubdivision [Vec3 0 0 0, Vec3 1 0 0, Vec3 1 1 0, Vec3 0 1 0] 1) = 8
   \<and> laneRiesenfeldSubdivision [Vec3 0 0 0, Vec3 1 0 0, Vec3 1 1 0, Vec3 0 1 0] 1 ! 7
     = laneRiesenfeldSubdivision [Vec3 0 0 0, Vec3 1 0 0, Vec3 1 1 0, Vec3 0 1 0] 1 ! 0"
  using table_size_and_closure [of "[Vec3 0 0 0, Vec3 1 0 0, Vec3 1 1 0, Vec3 0 1 0]" 1]
  by simp

text \<open>The table of the unit square with degree 1, computed.\<close>

lemma unit_square_degree_one:
  "laneRiesenfeldSubdivision [Vec3 0 0 0, Vec3 1 0 0, Vec3 1 1 0, Vec3 0 1 0] 1
   = [Vec3 0 0 0, Vec3 (1/2) 0 0, Vec3 1 0 0, Vec3 1 (1/2) 0,
      Vec3 1 1 0, Vec3 (1/2) 1 0, Vec3 0 1 0, Vec3 0 0 0]"
  by code_simp

section \<open>Evaluation of the subdivision curve\<close>



text \<open>
  C10. For \<open>t\<close> in \<open>[0, 1]\<close>, \<open>d\<close> in \<open>{0, 1}\<close> and a table of \<open>N \<ge> 2\<close> points, the three
  indices that \<^verbatim>\<open>eval\<close> computes, \<open>index\<close>, \<open>(index + 1) % N\<close> and \<open>(index - 1 + N) % N\<close>,
  lie in \<open>[0, N - 1]\<close>, and the evaluation returns without an access out of range.
\<close>

theorem eval_indices_in_bounds:
  assumes "0 \<le> t" and "t \<le> 1" and "2 \<le> length tbl" and "d = 0 \<or> d = 1"
  shows "let N = int (length tbl);
             index = \<lfloor>t * real_of_int (N - 1)\<rfloor> smod N
         in 0 \<le> index \<and> index \<le> N - 1
          \<and> 0 \<le> (index + 1) smod N \<and> (index + 1) smod N \<le> N - 1
          \<and> 0 \<le> (index - 1 + N) smod N \<and> (index - 1 + N) smod N \<le> N - 1
          \<and> (\<exists>slots. ClosedSubdivisionCurve_eval tbl t d = Inr slots)"
proof -
  have d0: "0 \<le> d" using assms(4) by auto
  note e = eval_in_domain[OF assms(1-3) d0]
  define N where "N = int (length tbl)"
  define ix where "ix = \<lfloor>t * real_of_int (N - 1)\<rfloor>"
  have N2: "2 \<le> N" using assms(3) by (simp add: N_def)
  have b1: "0 \<le> (ix + 1) mod N" "(ix + 1) mod N \<le> N - 1"
    using N2 pos_mod_bound[of N "ix + 1"] by simp_all
  have b2: "0 \<le> (ix - 1) mod N" "(ix - 1) mod N \<le> N - 1"
    using N2 pos_mod_bound[of N "ix - 1"] by simp_all
  have ex: "\<exists>slots. ClosedSubdivisionCurve_eval tbl t d = Inr slots"
    by (simp only: e(1)) blast
  show ?thesis
    unfolding Let_def 
    using e(2-6) b1 b2 ex unfolding N_def ix_def by simp
qed

theorem eval_indices_in_bounds_witness:
  "(0::real) \<le> 1 \<and> (1::real) \<le> 1 \<and> 2 \<le> length [Vec3 0 0 0, Vec3 2 0 0]
   \<and> (\<exists>slots. ClosedSubdivisionCurve_eval [Vec3 0 0 0, Vec3 2 0 0] 1 1 = Inr slots)
   \<and> \<lfloor>(1::real) * real_of_int (2 - 1)\<rfloor> smod 2 = (1::int)"
  using eval_indices_in_bounds [of 1 "[Vec3 0 0 0, Vec3 2 0 0]" 1]
  by (simp add: Let_def signed_modulo_int_def)

text \<open>
  The bound \<open>0 \<le> t\<close> is needed: \<^verbatim>\<open>%\<close> keeps the sign of a negative \<open>floor\<close>, and the
  index leaves the table.
\<close>

lemma eval_negative_parameter:
  "ClosedSubdivisionCurve_eval [Vec3 0 0 0, Vec3 1 0 0] (- 1) 0 = Inl OutOfRange"
  by code_simp

section \<open>Degree zero\<close>






section \<open>The torus knot\<close>

lemma torus_dx: "((\<lambda>s. (2 + cos (3 * s)) * cos (2 * s)) has_field_derivative
         (- 2 * (2 + cos (3 * t)) * sin (2 * t) - 3 * sin (3 * t) * cos (2 * t))) (at (t::real))"
  by (auto intro!: derivative_eq_intros simp: algebra_simps)

lemma torus_dy: "((\<lambda>s. (2 + cos (3 * s)) * sin (2 * s)) has_field_derivative
         (2 * (2 + cos (3 * t)) * cos (2 * t) - 3 * sin (3 * t) * sin (2 * t))) (at (t::real))"
  by (auto intro!: derivative_eq_intros simp: algebra_simps)

lemma torus_dz: "((\<lambda>s. sin (3 * s)) has_field_derivative (3 * cos (3 * t))) (at (t::real))"
  by (auto intro!: derivative_eq_intros simp: algebra_simps)

lemma torus_ddx:
  "((\<lambda>t. - 2 * (2 + cos (3 * t)) * sin (2 * t) - 3 * sin (3 * t) * cos (2 * t)) has_field_derivative
     (- 2 * (2 * (2 + cos (3 * t)) * cos (2 * t) - 3 * sin (3 * t) * sin (2 * t))
      + - 3 * (3 * cos (3 * t) * cos (2 * t) - 2 * sin (3 * t) * sin (2 * t)))) (at (t::real))"
  by (auto intro!: derivative_eq_intros simp: algebra_simps)

lemma torus_ddy:
  "((\<lambda>t. 2 * (2 + cos (3 * t)) * cos (2 * t) - 3 * sin (3 * t) * sin (2 * t)) has_field_derivative
     (2 * (- 2 * (2 + cos (3 * t)) * sin (2 * t) - 3 * sin (3 * t) * cos (2 * t))
      + - 3 * (3 * cos (3 * t) * sin (2 * t) + 2 * sin (3 * t) * cos (2 * t)))) (at (t::real))"
  by (auto intro!: derivative_eq_intros simp: algebra_simps)

lemma torus_ddz: "((\<lambda>s. 3 * cos (3 * s)) has_field_derivative (- 3 * 3 * sin (3 * t))) (at (t::real))"
  by (auto intro!: derivative_eq_intros simp: algebra_simps)

lemma TorusKnot_eval_slots:
  assumes "0 \<le> d"
  shows "TorusKnot_eval t d =
     Inr (let P0 = (replicate (nat (d + 1)) Unset)
                     [0 := Val (Vec3 ((2 + cos (3 * t)) * cos (2 * t)) ((2 + cos (3 * t)) * sin (2 * t)) (sin (3 * t)))];
              P1 = (if d > 0 then P0[1 := Val (Vec3
                       (- 2 * (2 + cos (3 * t)) * sin (2 * t) - 3 * sin (3 * t) * cos (2 * t))
                       (2 * (2 + cos (3 * t)) * cos (2 * t) - 3 * sin (3 * t) * sin (2 * t))
                       (3 * cos (3 * t)))] else P0)
          in if d > 1 then P1[2 := Val (Vec3
                       (- 2 * (2 * (2 + cos (3 * t)) * cos (2 * t) - 3 * sin (3 * t) * sin (2 * t))
                        + - 3 * (3 * cos (3 * t) * cos (2 * t) - 2 * sin (3 * t) * sin (2 * t)))
                       (2 * (- 2 * (2 + cos (3 * t)) * sin (2 * t) - 3 * sin (3 * t) * cos (2 * t))
                        + - 3 * (3 * cos (3 * t) * sin (2 * t) + 2 * sin (3 * t) * cos (2 * t)))
                       (- 3 * 3 * sin (3 * t)))] else P1)"
proof -
  have w0: "wr (setDim (d + 1)) 0 v = Inr ((replicate (nat (d + 1)) Unset)[0 := v])" for v :: "vec3 slot"
    using assms by (intro wr_setDim) simp
  have w1: "d > 0 \<Longrightarrow> length P = nat (d + 1) \<Longrightarrow> wr P 1 v = Inr (P[1 := v])" for v and P :: "vec3 slot list"
    by (simp add: wr_def)
  have w2: "d > 1 \<Longrightarrow> length P = nat (d + 1) \<Longrightarrow> wr P 2 v = Inr (P[2 := v])" for v and P :: "vec3 slot list"
    by (simp add: wr_def)
  show ?thesis
    unfolding TorusKnot_eval_def Let_def
    by (simp add: w0 w1 w2)
qed

text \<open>
  C4. For every real \<open>t\<close>, \<^verbatim>\<open>TorusKnot::eval\<close> returns in slot 0 the point
  \<open>((2 + cos 3t) cos 2t, (2 + cos 3t) sin 2t, sin 3t)\<close>; when \<open>d \<ge> 1\<close> slot 1 holds the
  derivatives of the three coordinate functions at \<open>t\<close>, and when \<open>d \<ge> 2\<close> slot 2 holds the
  derivatives at \<open>t\<close> of their derivatives.
\<close>

theorem torus_knot_position_and_derivatives:
  assumes "0 \<le> d"
  shows "let X = (\<lambda>s::real. (2 + cos (3 * s)) * cos (2 * s));
             Y = (\<lambda>s::real. (2 + cos (3 * s)) * sin (2 * s));
             Z = (\<lambda>s::real. sin (3 * s))
         in \<exists>slots. TorusKnot_eval t d = Inr slots
              \<and> slots ! 0 = Val (Vec3 (X t) (Y t) (Z t))
              \<and> (1 \<le> d \<longrightarrow>
                    (\<exists>dx dy dz. slots ! 1 = Val (Vec3 dx dy dz)
                       \<and> (X has_field_derivative dx) (at t)
                       \<and> (Y has_field_derivative dy) (at t)
                       \<and> (Z has_field_derivative dz) (at t)))
              \<and> (2 \<le> d \<longrightarrow>
                    (\<exists>X' Y' Z' xpp ypp zpp. slots ! 2 = Val (Vec3 xpp ypp zpp)
                       \<and> (\<forall>s. (X has_field_derivative X' s) (at s))
                       \<and> (\<forall>s. (Y has_field_derivative Y' s) (at s))
                       \<and> (\<forall>s. (Z has_field_derivative Z' s) (at s))
                       \<and> (X' has_field_derivative xpp) (at t)
                       \<and> (Y' has_field_derivative ypp) (at t)
                       \<and> (Z' has_field_derivative zpp) (at t)))"
proof -
  define X where "X = (\<lambda>s::real. (2 + cos (3 * s)) * cos (2 * s))"
  define Y where "Y = (\<lambda>s::real. (2 + cos (3 * s)) * sin (2 * s))"
  define Z where "Z = (\<lambda>s::real. sin (3 * s))"
  define X' where "X' = (\<lambda>t::real. - 2 * (2 + cos (3 * t)) * sin (2 * t) - 3 * sin (3 * t) * cos (2 * t))"
  define Y' where "Y' = (\<lambda>t::real. 2 * (2 + cos (3 * t)) * cos (2 * t) - 3 * sin (3 * t) * sin (2 * t))"
  define Z' where "Z' = (\<lambda>t::real. 3 * cos (3 * t))"
  define xpp where "xpp = - 2 * (2 * (2 + cos (3 * t)) * cos (2 * t) - 3 * sin (3 * t) * sin (2 * t))
                        + - 3 * (3 * cos (3 * t) * cos (2 * t) - 2 * sin (3 * t) * sin (2 * t))"
  define ypp where "ypp = 2 * (- 2 * (2 + cos (3 * t)) * sin (2 * t) - 3 * sin (3 * t) * cos (2 * t))
                        + - 3 * (3 * cos (3 * t) * sin (2 * t) + 2 * sin (3 * t) * cos (2 * t))"
  define zpp where "zpp = - 3 * 3 * sin (3 * t)"
  define P0 where "P0 = (replicate (nat (d + 1)) Unset)[0 := Val (Vec3 (X t) (Y t) (Z t))]"
  define P1 where "P1 = (if d > 0 then P0[1 := Val (Vec3 (X' t) (Y' t) (Z' t))] else P0)"
  define P2 where "P2 = (if d > 1 then P1[2 := Val (Vec3 xpp ypp zpp)] else P1)"
  have ev: "TorusKnot_eval t d = Inr P2"
    unfolding TorusKnot_eval_slots[OF assms] P2_def P1_def P0_def X_def Y_def Z_def X'_def Y'_def
      Z'_def xpp_def ypp_def zpp_def Let_def ..
  have s0: "P2 ! 0 = Val (Vec3 (X t) (Y t) (Z t))"
    using assms by (simp add: P2_def P1_def P0_def)
  have s1: "1 \<le> d \<Longrightarrow> P2 ! 1 = Val (Vec3 (X' t) (Y' t) (Z' t))"
    by (simp add: P2_def P1_def P0_def)
  have s2: "2 \<le> d \<Longrightarrow> P2 ! 2 = Val (Vec3 xpp ypp zpp)"
    by (simp add: P2_def P1_def P0_def)
  have d1: "(X has_field_derivative X' s) (at s)" "(Y has_field_derivative Y' s) (at s)"
      "(Z has_field_derivative Z' s) (at s)" for s
    unfolding X_def Y_def Z_def X'_def Y'_def Z'_def
    by (rule torus_dx torus_dy torus_dz)+
  have d2: "(X' has_field_derivative xpp) (at t)" "(Y' has_field_derivative ypp) (at t)"
      "(Z' has_field_derivative zpp) (at t)"
    unfolding X'_def Y'_def Z'_def xpp_def ypp_def zpp_def
    by (rule torus_ddx torus_ddy torus_ddz)+
  have first: "1 \<le> d \<longrightarrow>
                    (\<exists>dx dy dz. P2 ! 1 = Val (Vec3 dx dy dz)
                       \<and> (X has_field_derivative dx) (at t)
                       \<and> (Y has_field_derivative dy) (at t)
                       \<and> (Z has_field_derivative dz) (at t))"
    using s1 d1 by blast
  have second: "2 \<le> d \<longrightarrow>
                    (\<exists>X' Y' Z' xpp ypp zpp. P2 ! 2 = Val (Vec3 xpp ypp zpp)
                       \<and> (\<forall>s. (X has_field_derivative X' s) (at s))
                       \<and> (\<forall>s. (Y has_field_derivative Y' s) (at s))
                       \<and> (\<forall>s. (Z has_field_derivative Z' s) (at s))
                       \<and> (X' has_field_derivative xpp) (at t)
                       \<and> (Y' has_field_derivative ypp) (at t)
                       \<and> (Z' has_field_derivative zpp) (at t))"
    using s2 d1 d2 by blast
  show ?thesis
    unfolding Let_def X_def[symmetric] Y_def[symmetric] Z_def[symmetric]
    using ev s0 first second by blast
qed

theorem torus_knot_position_and_derivatives_witness:
  "(0::int) \<le> 2
   \<and> (\<exists>slots. TorusKnot_eval 0 2 = Inr slots
         \<and> slots ! 0 = Val (Vec3 3 0 0)
         \<and> (\<exists>dx dy dz. slots ! 1 = Val (Vec3 dx dy dz)
               \<and> ((\<lambda>s::real. (2 + cos (3 * s)) * cos (2 * s)) has_field_derivative dx) (at 0)
               \<and> ((\<lambda>s::real. (2 + cos (3 * s)) * sin (2 * s)) has_field_derivative dy) (at 0)
               \<and> ((\<lambda>s::real. sin (3 * s)) has_field_derivative dz) (at 0))
         \<and> (\<exists>xpp ypp zpp. slots ! 2 = Val (Vec3 xpp ypp zpp)))"
proof -
  have h: "(0::int) \<le> 2" by simp
  from torus_knot_position_and_derivatives [OF h, of 0]
  show ?thesis
    unfolding Let_def by (simp only: h mult_zero_right cos_zero sin_zero) auto
qed

section \<open>Closure at the ends of the domain\<close>



section \<open>The knot vector\<close>


lemma length_generateKnotVector: "length (generateKnotVector u n) = n + 3"
  unfolding generateKnotVector_def Let_def
  by (simp add: length_fold_update)





section \<open>Basis functions\<close>

lemma rd_int: "i < length xs \<Longrightarrow> rd xs (int i) = Inr (xs ! i)"
  by (simp add: rd_def)

lemma rd_int_Suc: "i + 1 < length xs \<Longrightarrow> rd xs (int i + 1) = Inr (xs ! (i + 1))"
  using rd_int[of "i + 1" xs] by (simp add: add.commute)

lemma rd_int_add: "i + j < length xs \<Longrightarrow> rd xs (int i + int j) = Inr (xs ! (i + j))"
  using rd_int[of "i + j" xs] by simp

lemma rd_int_add_Suc: "i + j + 1 < length xs \<Longrightarrow> rd xs (int i + int j + 1) = Inr (xs ! (i + j + 1))"
  using rd_int[of "i + j + 1" xs] by (simp add: add.commute add.left_commute)

lemma rd_last: "0 < length xs \<Longrightarrow> rd xs (int (length xs) - 1) = Inr (xs ! (length xs - 1))"
  by (cases xs) (simp_all add: rd_def)

lemma evaluateBasis_value:
  "i + dg + 1 < length kv \<Longrightarrow> evaluateBasis kv n (int i) dg t = Inr (basisValue kv n i dg t)"
proof (induction dg arbitrary: i)
  case 0
  then have r0: "rd kv (int i) = Inr (kv ! i)" and r1: "rd kv (int i + 1) = Inr (kv ! (i + 1))"
    and rl: "rd kv (int (length kv) - 1) = Inr (kv ! (length kv - 1))"
    by (simp_all only: rd_int rd_int_Suc rd_last)
  show ?case
    by (simp only: evaluateBasis.simps basisValue.simps r0 r1 rl lastKnotCase_def sum.case bnd_Inr)
       auto
next
  case (Suc dg)
  have r0: "rd kv (int i) = Inr (kv ! i)"
    using Suc.prems by (intro rd_int) simp
  have r1: "rd kv (int i + 1) = Inr (kv ! (i + 1))"
    using Suc.prems by (intro rd_int_Suc) simp
  have rd0: "rd kv (int i + int (Suc dg)) = Inr (kv ! (i + Suc dg))"
    using Suc.prems by (intro rd_int_add) simp
  have rd1: "rd kv (int i + int (Suc dg) + 1) = Inr (kv ! (i + Suc dg + 1))"
    using Suc.prems by (intro rd_int_add_Suc) simp
  have ih0: "evaluateBasis kv n (int i) dg t = Inr (basisValue kv n i dg t)"
    using Suc.prems by (intro Suc.IH) simp
  have "evaluateBasis kv n (int (i + 1)) dg t = Inr (basisValue kv n (i + 1) dg t)"
    using Suc.prems by (intro Suc.IH) simp
  then have ih1: "evaluateBasis kv n (int i + 1) dg t = Inr (basisValue kv n (i + 1) dg t)"
    by (simp add: add.commute)
  show ?case
    by (simp only: evaluateBasis.simps basisValue.simps r0 r1 rd0 rd1 ih0 ih1 Let_def sum.case)
       auto
qed











lemma direct_fields:
  "controlPoints (MyB_spline_direct u c) = c"
  "knotVector (MyB_spline_direct u c) = generateKnotVector u (length c)"
  by (simp_all add: MyB_spline_direct_def)





section \<open>Derivative orders that the evaluations do not compute\<close>

lemma forE_accumulates:
  assumes "\<forall>i \<in> set js. i < length c" and "0 < length P" and "length kv = length c + 3"
  shows "\<exists>a'. forE (\<lambda>i P.
                bnd (evaluateBasis kv (length c) (int i) 2 t) (\<lambda>basisVal.
                bnd (rd c (int i)) (\<lambda>ci.
                bnd (rd P 0) (\<lambda>s. wr P 0 (addTo s (smul basisVal ci))))))
             js (P[0 := Val a]) = Inr (P[0 := Val a'])"
  using assms(1)
proof (induction js arbitrary: a)
  case Nil
  show ?case by (rule exI[of _ a]) simp
next
  case (Cons i js)
  then have i: "i < length c" by simp
  then have "i + 2 + 1 < length kv" using assms(3) by simp
  then have ev: "evaluateBasis kv (length c) (int i) 2 t = Inr (basisValue kv (length c) i 2 t)"
    by (rule evaluateBasis_value)
  have rc: "rd c (int i) = Inr (c ! i)" using i by (rule rd_int)
  have rp: "rd (P[0 := Val a]) 0 = Inr (Val a)"
    using assms(2) by (simp add: rd_def)
  have wp: "wr (P[0 := Val a]) 0 v = Inr (P[0 := v])" for v
    using assms(2) by (simp add: wr_def)
  from Cons have "\<forall>i \<in> set js. i < length c" by simp
  from Cons.IH[OF this] show ?case
    by (simp add: ev rc rp wp addTo_def)
qed

lemma MyB_spline_eval_direct:
  assumes "0 \<le> d"
  shows "\<exists>v. MyB_spline_eval (MyB_spline_direct u c) t d
              = Inr ((replicate (nat (d + 1)) Unset)[0 := Val v])"
proof -
  have w0: "wr (setDim (d + 1)) 0 v = Inr ((replicate (nat (d + 1)) Unset)[0 := v])" for v :: "vec3 slot"
    using assms by (intro wr_setDim) simp
  have "\<exists>a'. forE (\<lambda>i P.
                bnd (evaluateBasis (generateKnotVector u (length c)) (length c) (int i) 2 t) (\<lambda>basisVal.
                bnd (rd c (int i)) (\<lambda>ci.
                bnd (rd P 0) (\<lambda>s. wr P 0 (addTo s (smul basisVal ci))))))
             [0..<length c] ((replicate (nat (d + 1)) Unset)[0 := Val (Vec3 0 0 0)])
          = Inr ((replicate (nat (d + 1)) Unset)[0 := Val a'])"
    using assms by (intro forE_accumulates) (simp_all add: length_generateKnotVector)
  then show ?thesis
    unfolding MyB_spline_eval_def Let_def direct_fields w0 bnd_Inr .
qed

text \<open>
  C9, as the code has it. For a derivative order \<open>d \<ge> 2\<close> neither evaluation fails:
  the subdivision curve (for \<open>t\<close> in \<open>[0, 1]\<close> and a table of at least two points) returns
  \<open>d + 1\<close> slots of which slots 0 and 1 are written and every slot from 2 on is left
  unset; the B-spline curve returns \<open>d + 1\<close> slots of which only slot 0 is written.
\<close>

theorem higher_order_slots_left_unset:
  assumes "2 \<le> d"
  shows "(0 \<le> t \<and> t \<le> 1 \<and> 2 \<le> length tbl \<longrightarrow>
            (\<exists>slots. ClosedSubdivisionCurve_eval tbl t d = Inr slots
                \<and> length slots = nat (d + 1)
                \<and> slots ! 0 \<noteq> Unset \<and> slots ! 1 \<noteq> Unset
                \<and> (\<forall>k. 2 \<le> k \<and> k < length slots \<longrightarrow> slots ! k = Unset)))
       \<and> (\<exists>slots. MyB_spline_eval (MyB_spline_direct u c) s d = Inr slots
                \<and> length slots = nat (d + 1)
                \<and> slots ! 0 \<noteq> Unset
                \<and> (\<forall>k. 1 \<le> k \<and> k < length slots \<longrightarrow> slots ! k = Unset))"
proof (rule conjI)
  show "0 \<le> t \<and> t \<le> 1 \<and> 2 \<le> length tbl \<longrightarrow>
            (\<exists>slots. ClosedSubdivisionCurve_eval tbl t d = Inr slots
                \<and> length slots = nat (d + 1)
                \<and> slots ! 0 \<noteq> Unset \<and> slots ! 1 \<noteq> Unset
                \<and> (\<forall>k. 2 \<le> k \<and> k < length slots \<longrightarrow> slots ! k = Unset))"
  proof
    assume h: "0 \<le> t \<and> t \<le> 1 \<and> 2 \<le> length tbl"
    have d0: "0 \<le> d" and d1: "d > 0" using assms by simp_all
    from h have t0: "0 \<le> t" and t1: "t \<le> 1" and n2: "2 \<le> length tbl" by simp_all
    obtain p q where e: "ClosedSubdivisionCurve_eval tbl t d
         = Inr ((replicate (nat (d + 1)) Unset)[0 := Val p, 1 := Val q])"
      using eval_in_domain(1)[OF t0 t1 n2 d0] d1 by simp
    show "\<exists>slots. ClosedSubdivisionCurve_eval tbl t d = Inr slots
                \<and> length slots = nat (d + 1)
                \<and> slots ! 0 \<noteq> Unset \<and> slots ! 1 \<noteq> Unset
                \<and> (\<forall>k. 2 \<le> k \<and> k < length slots \<longrightarrow> slots ! k = Unset)"
      unfolding e using assms by (intro exI[of _ "(replicate (nat (d + 1)) Unset)[0 := Val p, 1 := Val q]"]) (simp add: nth_list_update)
  qed
next
  have d0: "0 \<le> d" using assms by simp
  obtain v where e: "MyB_spline_eval (MyB_spline_direct u c) s d
              = Inr ((replicate (nat (d + 1)) Unset)[0 := Val v])"
    using MyB_spline_eval_direct[OF d0] by blast
  show "\<exists>slots. MyB_spline_eval (MyB_spline_direct u c) s d = Inr slots
                \<and> length slots = nat (d + 1)
                \<and> slots ! 0 \<noteq> Unset
                \<and> (\<forall>k. 1 \<le> k \<and> k < length slots \<longrightarrow> slots ! k = Unset)"
    unfolding e using assms by (intro exI[of _ "(replicate (nat (d + 1)) Unset)[0 := Val v]"]) (simp add: nth_list_update)
qed

theorem higher_order_slots_left_unset_witness:
  "(2::int) \<le> 2 \<and> (0::real) \<le> 0 \<and> (0::real) \<le> 1 \<and> 2 \<le> length [Vec3 0 0 0, Vec3 1 0 0]
   \<and> (\<exists>slots. ClosedSubdivisionCurve_eval [Vec3 0 0 0, Vec3 1 0 0] 0 2 = Inr slots
          \<and> length slots = 3 \<and> slots ! 0 \<noteq> Unset \<and> slots ! 1 \<noteq> Unset \<and> slots ! 2 = Unset)
   \<and> (\<exists>slots. MyB_spline_eval (MyB_spline_direct 0 [Vec3 1 2 3, Vec3 4 5 6, Vec3 7 8 9]) 0 2 = Inr slots
          \<and> length slots = 3 \<and> slots ! 0 \<noteq> Unset \<and> slots ! 1 = Unset \<and> slots ! 2 = Unset)"
proof -
  have h: "(2::int) \<le> 2" by simp
  have g: "(0::real) \<le> 0 \<and> (0::real) \<le> 1 \<and> 2 \<le> length [Vec3 0 0 0, Vec3 1 0 0]" by simp
  note th = higher_order_slots_left_unset [OF h, of 0 "[Vec3 0 0 0, Vec3 1 0 0]" 0
      "[Vec3 1 2 3, Vec3 4 5 6, Vec3 7 8 9]" 0]
  from th g obtain S where S: "ClosedSubdivisionCurve_eval [Vec3 0 0 0, Vec3 1 0 0] 0 2 = Inr S"
      "length S = nat (2 + 1)" "S ! 0 \<noteq> Unset" "S ! 1 \<noteq> Unset"
      "\<forall>k. 2 \<le> k \<and> k < length S \<longrightarrow> S ! k = Unset"
    by blast
  from th obtain T where T: "MyB_spline_eval (MyB_spline_direct 0 [Vec3 1 2 3, Vec3 4 5 6, Vec3 7 8 9]) 0 2 = Inr T"
      "length T = nat (2 + 1)" "T ! 0 \<noteq> Unset"
      "\<forall>k. 1 \<le> k \<and> k < length T \<longrightarrow> T ! k = Unset"
    by blast
  have ls: "length S = 3" and lt: "length T = 3" using S(2) T(2) by simp_all
  have s2: "S ! 2 = Unset" using S(5)[rule_format, of 2] ls by simp
  have t1: "T ! 1 = Unset" using T(4)[rule_format, of 1] lt by simp
  have t2: "T ! 2 = Unset" using T(4)[rule_format, of 2] lt by simp
  show ?thesis
    using h g S(1,3,4) ls s2 T(1,3) lt t1 t2 by blast
qed

text \<open>
  The claim as stated fails: with \<open>d = 2\<close> both evaluations return normally, and slot 2
  of the result is unset.
\<close>

theorem order_two_request_returns_unset_slot:
  "ClosedSubdivisionCurve_eval [Vec3 0 0 0, Vec3 1 0 0] 0 2
     = Inr [Val (Vec3 0 0 0), Val (Vec3 0 0 0), Unset]
   \<and> MyB_spline_eval (MyB_spline_direct 0 [Vec3 1 2 3, Vec3 4 5 6, Vec3 7 8 9]) 0 2
     = Inr [Val (Vec3 1 2 3), Unset, Unset]"
  by code_simp

section \<open>The fitted constructor\<close>

lemma rd_Nil: "rd [] i = Inl OutOfRange"
  by (simp add: rd_def)

lemma fitRow_empty: "3 \<le> n \<Longrightarrow> 2 \<le> m \<Longrightarrow> fitRow [] n m 0 N = Inl OutOfRange"
  by (simp add: fitRow_def fdiv_def rd_Nil)

lemma leastSquaresFit_empty:
  assumes "2 \<le> length p" and "3 \<le> n"
  shows "leastSquaresFit invert [] p n = Inl OutOfRange"
proof -
  have "0 < length p" using assms(1) by linarith
  then have "[0..<length p] = 0 # [Suc 0..<length p]"
    by (rule upt_conv_Cons)
  then show ?thesis
    unfolding leastSquaresFit_def Let_def
    by (simp only: forE.simps fitRow_empty[OF assms(2,1)] bnd_Inl)
qed

lemma MyB_spline_fitted_fault:
  assumes "2 \<le> length p" and "3 \<le> n"
  shows "MyB_spline_fitted invert u p n = Inl OutOfRange"
  unfolding MyB_spline_fitted_def leastSquaresFit_empty[OF assms] by simp

text \<open>
  C2. The second constructor runs \<^verbatim>\<open>leastSquaresFit\<close> before \<^verbatim>\<open>generateKnotVector\<close>, so the
  fit reads knots from an empty knot vector. For 50 samples of the quadratic path
  \<open>(t, t\<^sup>2, 0)\<close> and \<open>n = 3\<close> the first knot that the span search reads is out of range, and
  no curve is produced.
\<close>

theorem fitted_constructor_reads_knots_out_of_range:
  "MyB_spline_fitted (\<lambda>A. A) 0
      (map (\<lambda>i. Vec3 (real i / 49) ((real i / 49)\<^sup>2) 0) [0..<50]) 3 = Inl OutOfRange"
  by (rule MyB_spline_fitted_fault) simp_all

text \<open>
  With the knot vector of three control points in place, one pass of the sample loop
  fills its row of the matrix with the quadratic basis values at \<open>t = 1/2\<close>.
\<close>

lemma fitRow_with_knots:
  "fitRow (generateKnotVector 0 3) 3 3 1 [[0, 0, 0], [0, 0, 0], [0, 0, 0]]
   = Inr [[0, 0, 0], [1/4, 1/2, 1/4], [0, 0, 0]]"
  by code_simp

end
